theory Spec2Isabelle
  imports Complex_Main
begin

section \<open>Calendar events and free intervals\<close>

text \<open>
  A calendar event, as the Google Calendar resource and as the document of the
  MongoDB events collection (the code moves the same object between the two with
  a spread). A field that a JavaScript object may lack is an option, \<open>None\<close>
  standing for \<^verbatim>\<open>undefined\<close>/\<^verbatim>\<open>null\<close>.
  \<^item> \<open>mongo_id\<close> is \<^verbatim>\<open>_id\<close>, the ObjectId MongoDB assigns;
  \<^item> \<open>event_id\<close> is \<^verbatim>\<open>id\<close>, the identifier Google assigns;
  \<^item> \<open>start_dateTime\<close>, \<open>end_dateTime\<close> are \<^verbatim>\<open>start.dateTime\<close> and
    \<^verbatim>\<open>end.dateTime\<close>, represented by the instant they denote (milliseconds
    since the epoch, what \<^verbatim>\<open>new Date(s).getTime()\<close> gives); an event whose
    dateTime does not parse is outside the model.
\<close>

record event =
  mongo_id :: "nat option"
  event_id :: "string option"
  googleEventId :: "string option"
  summary :: "string option"
  start_dateTime :: int
  end_dateTime :: int
  description :: "string option"

text \<open>A free interval \<^verbatim>\<open>{start, end}\<close> (two Date objects, by their instants).\<close>

record interval =
  start_t :: int
  end_t :: int

subsection \<open>calculateFreeTimeIntervals (time/index.js)\<close>

text \<open>
  The loop of step 3: \<open>cur\<close> is \<^verbatim>\<open>currentFreeTimeStart\<close>, \<open>acc\<close> is
  \<^verbatim>\<open>freeTimeIntervals\<close>. The cursor is assigned the event's end
  unconditionally. The result is the list and the final cursor.
\<close>

fun scanEvents :: "int \<Rightarrow> event list \<Rightarrow> interval list \<Rightarrow> interval list \<times> int" where
  "scanEvents cur [] acc = (acc, cur)"
| "scanEvents cur (e # es) acc =
     scanEvents (end_dateTime e) es
       (if start_dateTime e > cur
        then acc @ [\<lparr>start_t = cur, end_t = start_dateTime e\<rparr>]
        else acc)"

text \<open>
  \<open>now\<close> is the value of the first \<^verbatim>\<open>new Date()\<close>, \<open>endOfDay\<close> the second one
  after \<^verbatim>\<open>setHours(23, 59, 59, 999)\<close>. \<^verbatim>\<open>Array.prototype.sort\<close> with the
  comparator \<^verbatim>\<open>a.start - b.start\<close> is a stable sort on the start instant, as
  \<^const>\<open>sort_key\<close> is.
\<close>

definition calculateFreeTimeIntervals :: "int \<Rightarrow> int \<Rightarrow> event list \<Rightarrow> interval list" where
  "calculateFreeTimeIntervals now endOfDay events =
     (case scanEvents now (sort_key start_dateTime events) [] of
        (acc, cur) \<Rightarrow>
          if endOfDay > cur then acc @ [\<lparr>start_t = cur, end_t = endOfDay\<rparr>] else acc)"

text \<open>A busy event with nothing but its two instants.\<close>

definition busy :: "int \<Rightarrow> int \<Rightarrow> event" where
  "busy s e = \<lparr>mongo_id = None, event_id = None, googleEventId = None, summary = None,
     start_dateTime = s, end_dateTime = e, description = None\<rparr>"

text \<open>Two half-open spans \<open>[a, b)\<close> and \<open>[c, d)\<close> share an instant.\<close>

definition overlaps :: "int \<Rightarrow> int \<Rightarrow> int \<Rightarrow> int \<Rightarrow> bool" where
  "overlaps a b c d = (max a c < min b d)"

text \<open>The length of the part of the event that lies in the window \<open>[s, e)\<close>.\<close>

definition clipped_length :: "int \<Rightarrow> int \<Rightarrow> event \<Rightarrow> int" where
  "clipped_length s e ev = max 0 (min e (end_dateTime ev) - max s (start_dateTime ev))"

definition interval_length :: "interval \<Rightarrow> int" where
  "interval_length i = end_t i - start_t i"

text \<open>
  Busy events that do not overlap, in ascending order: each one ends no later than
  every later one starts.
\<close>

definition non_overlapping_sorted :: "event list \<Rightarrow> bool" where
  "non_overlapping_sorted B =
     (sorted_wrt (\<lambda>a b. end_dateTime a \<le> start_dateTime b) B
      \<and> list_all (\<lambda>b. start_dateTime b < end_dateTime b) B)"

text \<open>Every event touches the window: none ends before \<open>s\<close>, none starts after \<open>e\<close>.\<close>

definition within_reach :: "int \<Rightarrow> int \<Rightarrow> event list \<Rightarrow> bool" where
  "within_reach s e B = list_all (\<lambda>b. s \<le> end_dateTime b \<and> start_dateTime b \<le> e) B"

text \<open>Free intervals in ascending order, none overlapping a later one.\<close>

definition ascending :: "interval list \<Rightarrow> bool" where
  "ascending xs = sorted_wrt (\<lambda>a b. end_t a \<le> start_t b) xs"

text \<open>
  The free time the scan leaves from cursor \<open>c\<close> up to \<open>e\<close>: the lengths of the
  intervals it pushes, plus the final one.
\<close>

definition free_total :: "int \<Rightarrow> int \<Rightarrow> event list \<Rightarrow> int" where
  "free_total c e es =
     (case scanEvents c es [] of
        (acc, cur) \<Rightarrow> sum_list (map interval_length acc) + (if e > cur then e - cur else 0))"

section \<open>Tasks and the scheduling interface\<close>

text \<open>
  The identifier a caller passes (\<^verbatim>\<open>ObjectId | string\<close>). The data modules test
  \<^verbatim>\<open>typeof id === "string" && !ObjectId.isValid(id)\<close> and then query with
  \<^verbatim>\<open>ObjectId(id)\<close>: \<open>Malformed s\<close> is a string the test rejects, \<open>WellFormed n\<close> an
  ObjectId, or a string that denotes one, with value \<open>n\<close>.
\<close>

datatype task_id = Malformed string | WellFormed nat

text \<open>
  What the code throws. The source has one class, \<^verbatim>\<open>Error\<close>, told apart by message:
  \<open>InvalidTaskId\<close> is \<^verbatim>\<open>"Invalid taskId provided."\<close>, \<open>TaskNotFound\<close> is
  \<^verbatim>\<open>"Task with ID ... not found."\<close>, \<open>AdapterError\<close> a failure of the calendar
  provider; \<open>TypeError\<close> and \<open>ReferenceError\<close> are the language's own.
\<close>

datatype error =
    InvalidTaskId
  | TaskNotFound task_id
  | AdapterError string
  | TypeError string
  | ReferenceError string

text \<open>
  A document of the tasks collection: \<open>task_oid\<close> is \<^verbatim>\<open>_id\<close>, \<open>duration\<close> is in
  hours. Fields the scheduling code never reads are left to the record's extension.
\<close>

record task =
  task_oid :: nat
  title :: string
  duration :: rat
  scheduled :: bool
  calendarEventId :: "string option"

text \<open>
  The three stores the code talks to: the tasks collection, the Google calendar and the
  events collection of MongoDB.
\<close>

record world =
  tasks :: "task list"
  calendar :: "event list"
  events :: "event list"

text \<open>JavaScript truthiness of an optional string: \<^verbatim>\<open>undefined\<close>, \<^verbatim>\<open>null\<close> and \<^verbatim>\<open>""\<close> are falsy.\<close>

definition truthy :: "string option \<Rightarrow> bool" where
  "truthy v = (case v of None \<Rightarrow> False | Some s \<Rightarrow> s \<noteq> [])"

text \<open>\<^verbatim>\<open>updateOne\<close> and \<^verbatim>\<open>deleteOne\<close> act on the first document that matches.\<close>

fun update_first :: "('a \<Rightarrow> bool) \<Rightarrow> ('a \<Rightarrow> 'a) \<Rightarrow> 'a list \<Rightarrow> 'a list" where
  "update_first P f [] = []"
| "update_first P f (x # xs) = (if P x then f x # xs else x # update_first P f xs)"

fun delete_first :: "('a \<Rightarrow> bool) \<Rightarrow> 'a list \<Rightarrow> 'a list" where
  "delete_first P [] = []"
| "delete_first P (x # xs) = (if P x then xs else x # delete_first P xs)"

subsection \<open>Identifiers assigned by the stores\<close>

text \<open>
  MongoDB gives an inserted document an ObjectId no document has; Google gives a created
  event an id it has never given before, so one that no event of the calendar has and
  that no document or task refers to. The model takes the next number above every
  ObjectId in use, and a string longer than every Google id in use.
\<close>

fun opt_list :: "'a option \<Rightarrow> 'a list" where
  "opt_list None = []"
| "opt_list (Some x) = [x]"

definition oids_in_use :: "world \<Rightarrow> nat list" where
  "oids_in_use w =
     map task_oid (tasks w) @ concat (map (\<lambda>e. opt_list (mongo_id e)) (events w))"

definition fresh_oid :: "world \<Rightarrow> nat" where
  "fresh_oid w = Suc (fold max (oids_in_use w) 0)"

definition gids_in_use :: "world \<Rightarrow> string list" where
  "gids_in_use w =
     concat (map (\<lambda>e. opt_list (event_id e)) (calendar w))
     @ concat (map (\<lambda>e. opt_list (event_id e) @ opt_list (googleEventId e)) (events w))
     @ concat (map (\<lambda>t. opt_list (calendarEventId t)) (tasks w))"

definition fresh_gid :: "world \<Rightarrow> string" where
  "fresh_gid w = replicate (Suc (fold max (map length (gids_in_use w)) 0)) CHR ''g''"

text \<open>The text of an ObjectId in a template string: 24 hexadecimal digits.\<close>

fun hex_digits :: "nat \<Rightarrow> nat \<Rightarrow> string" where
  "hex_digits 0 n = []"
| "hex_digits (Suc k) n = hex_digits k (n div 16) @ [''0123456789abcdef'' ! (n mod 16)]"

fun task_id_text :: "task_id \<Rightarrow> string" where
  "task_id_text (Malformed s) = s"
| "task_id_text (WellFormed n) = hex_digits 24 n"

subsection \<open>The adapters (tasks/tasks\_data.js, time/google\_calendar.js, time/mongo\_calendar.js)\<close>

text \<open>
  Each adapter function is its effect on the stores. Failures of authentication, of the
  network and of the database are outside the model, but for the calendar provider's
  refusal to delete an event it does not hold.
\<close>

definition tasksData_retrieveTaskById :: "task_id \<Rightarrow> world \<Rightarrow> error + task option" where
  "tasksData_retrieveTaskById taskId w =
     (case taskId of
        Malformed s \<Rightarrow> Inl InvalidTaskId
      | WellFormed n \<Rightarrow> Inr (find (\<lambda>t. task_oid t = n) (tasks w)))"

text \<open>The \<^verbatim>\<open>$set\<close> object is the function \<open>upd\<close> that writes its fields.\<close>

definition tasksData_updateTaskData :: "task_id \<Rightarrow> (task \<Rightarrow> task) \<Rightarrow> world \<Rightarrow> error + world" where
  "tasksData_updateTaskData taskId upd w =
     (case taskId of
        Malformed s \<Rightarrow> Inl InvalidTaskId
      | WellFormed n \<Rightarrow> Inr (w\<lparr>tasks := update_first (\<lambda>t. task_oid t = n) upd (tasks w)\<rparr>))"

text \<open>
  \<^verbatim>\<open>calendar.events.insert\<close>: the created event is the resource's calendar fields under
  a new id; it is returned and added to the calendar.
\<close>

definition googleCalendar_createEvent :: "event \<Rightarrow> world \<Rightarrow> event \<times> world" where
  "googleCalendar_createEvent eventData w =
     (let created = \<lparr>mongo_id = None, event_id = Some (fresh_gid w),
            googleEventId = None, summary = summary eventData,
            start_dateTime = start_dateTime eventData, end_dateTime = end_dateTime eventData,
            description = description eventData\<rparr>
      in (created, w\<lparr>calendar := calendar w @ [created]\<rparr>))"

text \<open>\<^verbatim>\<open>calendar.events.delete\<close>: the provider rejects an id it does not hold.\<close>

definition googleCalendar_deleteEvent :: "string \<Rightarrow> world \<Rightarrow> error + world" where
  "googleCalendar_deleteEvent eventId w =
     (if list_ex (\<lambda>e. event_id e = Some eventId) (calendar w)
      then Inr (w\<lparr>calendar := filter (\<lambda>e. event_id e \<noteq> Some eventId) (calendar w)\<rparr>)
      else Inl (AdapterError ''deleteEvent''))"

text \<open>\<^verbatim>\<open>insertOne\<close>: a document without \<^verbatim>\<open>_id\<close> gets a new one; the id is returned.\<close>

definition mongoCalendar_insertEvent :: "event \<Rightarrow> world \<Rightarrow> nat \<times> world" where
  "mongoCalendar_insertEvent eventData w =
     (let insertedId = (case mongo_id eventData of None \<Rightarrow> fresh_oid w | Some k \<Rightarrow> k)
      in (insertedId, w\<lparr>events := events w @ [eventData\<lparr>mongo_id := Some insertedId\<rparr>]\<rparr>))"

text \<open>\<^verbatim>\<open>deleteOne({_id: eventId})\<close>, called with an ObjectId.\<close>

definition mongoCalendar_deleteEvent :: "nat \<Rightarrow> world \<Rightarrow> world" where
  "mongoCalendar_deleteEvent eventId w =
     w\<lparr>events := delete_first (\<lambda>e. mongo_id e = Some eventId) (events w)\<rparr>"

subsection \<open>insertEvent and deleteEvent of time/index.js\<close>

text \<open>The result is the pair \<^verbatim>\<open>{googleEventId, mongoEventId}\<close>.\<close>

definition timeModule_insertEvent :: "event \<Rightarrow> world \<Rightarrow> (string option \<times> nat) \<times> world" where
  "timeModule_insertEvent eventData w =
     (case googleCalendar_createEvent eventData w of
        (googleEvent, w1) \<Rightarrow>
          (case mongoCalendar_insertEvent (eventData\<lparr>googleEventId := event_id googleEvent\<rparr>) w1 of
             (mongoEventId, w2) \<Rightarrow> ((event_id googleEvent, mongoEventId), w2)))"

definition timeModule_deleteEvent :: "string \<Rightarrow> nat \<Rightarrow> world \<Rightarrow> error + world" where
  "timeModule_deleteEvent googleEventId' mongoEventId w =
     (case googleCalendar_deleteEvent googleEventId' w of
        Inl err \<Rightarrow> Inl err
      | Inr w1 \<Rightarrow> Inr (mongoCalendar_deleteEvent mongoEventId w1))"

subsection \<open>Modules as objects\<close>

text \<open>
  What \<^verbatim>\<open>require\<close> returns is an object whose properties are the names listed in the
  module's \<^verbatim>\<open>module.exports\<close>. Reading a property an object lacks gives
  \<^verbatim>\<open>undefined\<close>; calling a value that is not a function throws a TypeError.
\<close>

datatype jsval =
    JUndefined
  | JFunction string
  | JString string
  | JNumber rat
  | JDate int
  | JObject "(string \<times> jsval) list"

fun get_member :: "jsval \<Rightarrow> string \<Rightarrow> error + jsval" where
  "get_member (JObject props) k =
     Inr (case map_of props k of None \<Rightarrow> JUndefined | Some v \<Rightarrow> v)"
| "get_member JUndefined k = Inl (TypeError (''Cannot read properties of undefined: '' @ k))"
| "get_member v k = Inr JUndefined"

text \<open>The function a call expression \<^verbatim>\<open>obj.k(...)\<close> invokes, by name.\<close>

definition callee :: "jsval \<Rightarrow> string \<Rightarrow> error + string" where
  "callee obj k =
     (case get_member obj k of
        Inl err \<Rightarrow> Inl err
      | Inr (JFunction f) \<Rightarrow> Inr f
      | Inr v \<Rightarrow> Inl (TypeError (k @ '' is not a function'')))"

text \<open>\<^verbatim>\<open>module.exports\<close> of time/index.js.\<close>

definition timeModule :: jsval where
  "timeModule = JObject
     [(''syncEvents'', JFunction ''syncEvents''),
      (''insertEvent'', JFunction ''insertEvent''),
      (''updateEvent'', JFunction ''updateEvent''),
      (''deleteEvent'', JFunction ''deleteEvent''),
      (''calculateFreeTimeIntervals'', JFunction ''calculateFreeTimeIntervals'')]"

subsection \<open>scheduleTask, unscheduleTask, suggestTimeSlots (tasks/scheduling\_interface.js)\<close>

text \<open>
  \<open>instantIn zone t\<close> stands for \<^verbatim>\<open>moment.tz(t, zone).utc().format()\<close>: the instant
  the wall-clock reading \<open>t\<close> denotes in the zone. A throw leaves the stores as they are
  at that point: the \<^verbatim>\<open>catch\<close> logs and rethrows.
\<close>

definition scheduleTask ::
  "(string \<Rightarrow> int \<Rightarrow> int) \<Rightarrow> task_id \<Rightarrow> interval \<Rightarrow> string \<Rightarrow> world \<Rightarrow> (error + string) \<times> world" where
  "scheduleTask instantIn taskId timeSlot timeZone w =
     (case tasksData_retrieveTaskById taskId w of
        Inl err \<Rightarrow> (Inl err, w)
      | Inr None \<Rightarrow> (Inl (TaskNotFound taskId), w)
      | Inr (Some task) \<Rightarrow>
          (let eventData = \<lparr>mongo_id = None, event_id = None, googleEventId = None,
                 summary = Some (title task),
                 start_dateTime = instantIn timeZone (start_t timeSlot),
                 end_dateTime = instantIn timeZone (end_t timeSlot),
                 description = Some (''Task ID: '' @ task_id_text taskId)\<rparr>
           in case timeModule_insertEvent eventData w of
                ((gid, mid), w1) \<Rightarrow>
                  (case tasksData_updateTaskData taskId
                          (\<lambda>t. t\<lparr>scheduled := True, calendarEventId := gid\<rparr>) w1 of
                     Inl err \<Rightarrow> (Inl err, w1)
                   | Inr w2 \<Rightarrow>
                       (Inr (''Task scheduled successfully. Calendar Event ID: ''
                             @ (case gid of None \<Rightarrow> ''undefined'' | Some g \<Rightarrow> g)), w2))))"

definition unscheduleTask :: "task_id \<Rightarrow> world \<Rightarrow> (error + string) \<times> world" where
  "unscheduleTask taskId w =
     (case tasksData_retrieveTaskById taskId w of
        Inl err \<Rightarrow> (Inl err, w)
      | Inr None \<Rightarrow> (Inl (TaskNotFound taskId), w)
      | Inr (Some task) \<Rightarrow>
          (case (if truthy (calendarEventId task)
                 then timeModule_deleteEvent
                        (case calendarEventId task of None \<Rightarrow> [] | Some g \<Rightarrow> g) (task_oid task) w
                 else Inr w) of
             Inl err \<Rightarrow> (Inl err, w)
           | Inr w1 \<Rightarrow>
               (case tasksData_updateTaskData taskId
                       (\<lambda>t. t\<lparr>scheduled := False, calendarEventId := None\<rparr>) w1 of
                  Inl err \<Rightarrow> (Inl err, w1)
                | Inr w2 \<Rightarrow> (Inr ''Task unscheduled successfully.'', w2))))"

text \<open>
  The filter of suggestTimeSlots: the interval's length in milliseconds against the
  task's duration in hours times \<^verbatim>\<open>60 * 60 * 1000\<close>.
\<close>

definition long_enough :: "task \<Rightarrow> interval \<Rightarrow> bool" where
  "long_enough task i = (of_int (end_t i - start_t i) \<ge> duration task * 60 * 60 * 1000)"

text \<open>
  suggestTimeSlots reads the stores only. \<open>now\<close> and \<open>endOfDay\<close> are the clock readings
  of calculateFreeTimeIntervals, \<open>formatIn zone t\<close> is
  \<^verbatim>\<open>moment.tz(t, "UTC").tz(zone).format()\<close>. The time module is asked for
  \<^verbatim>\<open>fetchEvents\<close>; \<open>run f w a b\<close> is what calling the export named \<open>f\<close> with the
  calendar id and the two dates would return.
\<close>

definition suggestTimeSlots ::
  "(string \<Rightarrow> world \<Rightarrow> int \<Rightarrow> int \<Rightarrow> event list) \<Rightarrow> (string \<Rightarrow> int \<Rightarrow> string) \<Rightarrow> int \<Rightarrow> int
     \<Rightarrow> task_id \<Rightarrow> string \<Rightarrow> world \<Rightarrow> error + (string \<times> string) list" where
  "suggestTimeSlots run formatIn now endOfDay taskId timeZone w =
     (case tasksData_retrieveTaskById taskId w of
        Inl err \<Rightarrow> Inl err
      | Inr None \<Rightarrow> Inl (TaskNotFound taskId)
      | Inr (Some task) \<Rightarrow>
          (case callee timeModule ''fetchEvents'' of
             Inl err \<Rightarrow> Inl err
           | Inr f \<Rightarrow>
               (let events = run f w now (now + 7 * 24 * 60 * 60 * 1000);
                    freeTimeIntervals = calculateFreeTimeIntervals now endOfDay events;
                    suggestedTimeSlots = filter (long_enough task) freeTimeIntervals
                in Inr (map (\<lambda>i. (formatIn timeZone (start_t i), formatIn timeZone (end_t i)))
                          suggestedTimeSlots))))"

text \<open>The identifier names a document of the tasks collection.\<close>

definition task_exists :: "task_id \<Rightarrow> world \<Rightarrow> bool" where
  "task_exists taskId w =
     (case taskId of
        Malformed s \<Rightarrow> False
      | WellFormed n \<Rightarrow> list_ex (\<lambda>t. task_oid t = n) (tasks w))"

section \<open>Synchronization (time/index.js)\<close>

text \<open>
  \<^verbatim>\<open>calendar.events.list\<close> with \<^verbatim>\<open>timeMin\<close>, \<^verbatim>\<open>timeMax\<close> and
  \<^verbatim>\<open>orderBy: "startTime"\<close>: the provider returns the events that end after
  \<open>timeMin\<close> and start before \<open>timeMax\<close>, by ascending start.
\<close>

definition googleCalendar_fetchEvents :: "int \<Rightarrow> int \<Rightarrow> world \<Rightarrow> event list" where
  "googleCalendar_fetchEvents startTime endTime w =
     sort_key start_dateTime
       (filter (\<lambda>e. startTime < end_dateTime e \<and> start_dateTime e < endTime) (calendar w))"

text \<open>
  \<^verbatim>\<open>updateOne({_id: eventId}, {$set: eventData})\<close>: \<^verbatim>\<open>$set\<close> writes the fields the
  object has and leaves the document's other fields alone. In both calls of syncEvents
  the object has \<^verbatim>\<open>start\<close>, \<^verbatim>\<open>end\<close> and \<^verbatim>\<open>googleEventId\<close>; \<^verbatim>\<open>id\<close>,
  \<^verbatim>\<open>summary\<close> and \<^verbatim>\<open>description\<close> are there when the spread object has them; the
  document keeps its \<^verbatim>\<open>_id\<close>.
\<close>

definition set_fields :: "event \<Rightarrow> event \<Rightarrow> event" where
  "set_fields eventData doc =
     doc\<lparr>event_id := (case event_id eventData of None \<Rightarrow> event_id doc | Some i \<Rightarrow> Some i),
         googleEventId := googleEventId eventData,
         summary := (case summary eventData of None \<Rightarrow> summary doc | Some t \<Rightarrow> Some t),
         start_dateTime := start_dateTime eventData,
         end_dateTime := end_dateTime eventData,
         description :=
           (case description eventData of None \<Rightarrow> description doc | Some t \<Rightarrow> Some t)\<rparr>"

definition mongoCalendar_updateEvent :: "nat option \<Rightarrow> event \<Rightarrow> world \<Rightarrow> world" where
  "mongoCalendar_updateEvent eventId eventData w =
     w\<lparr>events := update_first (\<lambda>d. mongo_id d = eventId) (set_fields eventData) (events w)\<rparr>"

definition hasEventChanged :: "event \<Rightarrow> event \<Rightarrow> bool" where
  "hasEventChanged googleEvent mongoEvent =
     (summary googleEvent \<noteq> summary mongoEvent
      \<or> start_dateTime googleEvent \<noteq> start_dateTime mongoEvent
      \<or> end_dateTime googleEvent \<noteq> end_dateTime mongoEvent
      \<or> description googleEvent \<noteq> description mongoEvent)"

text \<open>
  The \<^verbatim>\<open>Map\<close> from Google id to document: \<^verbatim>\<open>forEach\<close> with \<^verbatim>\<open>set\<close>, so a later
  document with the same id replaces an earlier one; documents with a falsy
  \<^verbatim>\<open>googleEventId\<close> are not entered.
\<close>

definition mapEvent :: "event \<Rightarrow> (string \<rightharpoonup> event) \<Rightarrow> (string \<rightharpoonup> event)" where
  "mapEvent ev m =
     (case googleEventId ev of
        None \<Rightarrow> m
      | Some g \<Rightarrow> if g \<noteq> [] then m(g \<mapsto> ev) else m)"

definition mongoEventsMap :: "event list \<Rightarrow> (string \<rightharpoonup> event)" where
  "mongoEventsMap mongoEvents = fold mapEvent mongoEvents Map.empty"

text \<open>
  The calls syncEvents makes on the two adapters, in order. The code keeps no such list;
  it is here to state what is called, on what, and when.
\<close>

datatype call =
    MongoInsert event
  | MongoUpdate "nat option" event
  | GoogleCreate event

text \<open>The body of the first loop, for one Google event.\<close>

definition syncGoogleEvent ::
  "(string \<rightharpoonup> event) \<Rightarrow> event \<Rightarrow> world \<times> call list \<Rightarrow> world \<times> call list" where
  "syncGoogleEvent eventsMap googleEvent s =
     (case s of (w, calls) \<Rightarrow>
        (let eventData = googleEvent\<lparr>googleEventId := event_id googleEvent\<rparr> in
         case (case event_id googleEvent of None \<Rightarrow> None | Some i \<Rightarrow> eventsMap i) of
           None \<Rightarrow>
             (snd (mongoCalendar_insertEvent eventData w), calls @ [MongoInsert eventData])
         | Some mongoEvent \<Rightarrow>
             if hasEventChanged googleEvent mongoEvent
             then (mongoCalendar_updateEvent (mongo_id mongoEvent) eventData w,
                   calls @ [MongoUpdate (mongo_id mongoEvent) eventData])
             else (w, calls)))"

text \<open>The body of the second loop, for one document of the events collection.\<close>

definition syncMongoEvent ::
  "event list \<Rightarrow> event \<Rightarrow> world \<times> call list \<Rightarrow> world \<times> call list" where
  "syncMongoEvent googleEvents mongoEvent s =
     (case s of (w, calls) \<Rightarrow>
        if \<not> truthy (googleEventId mongoEvent) then (w, calls)
        else
          (case find (\<lambda>ev. event_id ev = googleEventId mongoEvent) googleEvents of
             Some googleEvent \<Rightarrow> (w, calls)
           | None \<Rightarrow>
               (case googleCalendar_createEvent mongoEvent w of
                  (newGoogleEvent, w1) \<Rightarrow>
                    (let eventData = mongoEvent\<lparr>googleEventId := event_id newGoogleEvent\<rparr>
                     in (mongoCalendar_updateEvent (mongo_id mongoEvent) eventData w1,
                         calls @ [GoogleCreate mongoEvent,
                                  MongoUpdate (mongo_id mongoEvent) eventData])))))"

text \<open>
  The two loops: \<^verbatim>\<open>// Sync from Google Calendar to MongoDB\<close> over the fetched
  Google events, \<^verbatim>\<open>// Sync from MongoDB to Google Calendar\<close> over the fetched
  documents.
\<close>

definition syncFromGoogle ::
  "event list \<Rightarrow> (string \<rightharpoonup> event) \<Rightarrow> world \<times> call list \<Rightarrow> world \<times> call list" where
  "syncFromGoogle googleEvents eventsMap s = fold (syncGoogleEvent eventsMap) googleEvents s"

definition syncFromMongo ::
  "event list \<Rightarrow> event list \<Rightarrow> world \<times> call list \<Rightarrow> world \<times> call list" where
  "syncFromMongo mongoEvents googleEvents s = fold (syncMongoEvent googleEvents) mongoEvents s"

text \<open>
  syncEvents at clock reading \<open>now\<close>: both lists are fetched once, then the two loops
  run one after the other. The function returns nothing; the result here is the stores
  after the run and the calls made. Failures of the adapters (network, database) are
  outside the model.
\<close>

definition syncEvents :: "int \<Rightarrow> world \<Rightarrow> world \<times> call list" where
  "syncEvents now w =
     (let googleEvents = googleCalendar_fetchEvents now (now + 7 * 24 * 60 * 60 * 1000) w;
          mongoEvents = events w;
          eventsMap = mongoEventsMap mongoEvents
      in syncFromMongo mongoEvents googleEvents (syncFromGoogle googleEvents eventsMap (w, [])))"

text \<open>The call writes to, or mirrors, the document \<open>u\<close>.\<close>

definition targets :: "event \<Rightarrow> call \<Rightarrow> bool" where
  "targets u c =
     (case c of
        MongoInsert d \<Rightarrow> False
      | MongoUpdate i d \<Rightarrow> i = mongo_id u
      | GoogleCreate d \<Rightarrow> d = u)"

text \<open>The documents handed to \<^verbatim>\<open>createEvent\<close>, in call order.\<close>

definition created_resources :: "call list \<Rightarrow> event list" where
  "created_resources calls = concat (map (\<lambda>c. case c of GoogleCreate d \<Rightarrow> [d] | _ \<Rightarrow> []) calls)"

definition is_mongo_call :: "call \<Rightarrow> bool" where
  "is_mongo_call c = (case c of GoogleCreate d \<Rightarrow> False | _ \<Rightarrow> True)"

text \<open>
  The document is linked to a Google id that the fetched list \<open>googleEvents\<close> does not
  hold.
\<close>

definition missing_remotely :: "event list \<Rightarrow> event \<Rightarrow> bool" where
  "missing_remotely googleEvents mongoEvent =
     (truthy (googleEventId mongoEvent)
      \<and> \<not> list_ex (\<lambda>ev. event_id ev = googleEventId mongoEvent) googleEvents)"

text \<open>
  The document \<open>u\<close> is still in the events collection, and no call made so far writes
  to it or mirrors it.
\<close>

definition untouched :: "event \<Rightarrow> world \<times> call list \<Rightarrow> bool" where
  "untouched u s = (u \<in> set (events (fst s)) \<and> list_all (\<lambda>c. \<not> targets u c) (snd s))"

text \<open>An event with a title, for writing examples down.\<close>

definition ev :: "nat option \<Rightarrow> string option \<Rightarrow> string option \<Rightarrow> string \<Rightarrow> int \<Rightarrow> int \<Rightarrow> string option \<Rightarrow> event" where
  "ev oid gid link text s e d =
     \<lparr>mongo_id = oid, event_id = gid, googleEventId = link, summary = Some text,
      start_dateTime = s, end_dateTime = e, description = d\<rparr>"


section \<open>Name resolution in progress/language\_tracker.js\<close>

text \<open>
  A \<^verbatim>\<open>const\<close> belongs to its whole block: from the start of the block until its
  declaration has been evaluated the name is bound but uninitialized, and reading it
  throws a ReferenceError. A name is resolved in the innermost block that declares it.
  The environment is the list of blocks, innermost first.
\<close>

datatype binding = Uninitialized | Initialized jsval

type_synonym frame = "(string \<times> binding) list"

fun lookup :: "frame list \<Rightarrow> string \<Rightarrow> binding option" where
  "lookup [] x = None"
| "lookup (fr # frs) x = (case map_of fr x of None \<Rightarrow> lookup frs x | Some b \<Rightarrow> Some b)"

definition read_var :: "frame list \<Rightarrow> string \<Rightarrow> error + jsval" where
  "read_var env x =
     (case lookup env x of
        None \<Rightarrow> Inl (ReferenceError (x @ '' is not defined''))
      | Some Uninitialized \<Rightarrow> Inl (ReferenceError (''Cannot access '' @ x @ '' before initialization''))
      | Some (Initialized v) \<Rightarrow> Inr v)"

fun initialize :: "string \<Rightarrow> jsval \<Rightarrow> frame list \<Rightarrow> frame list" where
  "initialize x v [] = []"
| "initialize x v (fr # frs) =
     map (\<lambda>(k, b). if k = x then (k, Initialized v) else (k, b)) fr # frs"

text \<open>Sequencing: a throw skips the rest of the \<^verbatim>\<open>try\<close> block; \<^verbatim>\<open>catch\<close> rethrows it.\<close>

definition and_then :: "error + 'a \<Rightarrow> ('a \<Rightarrow> error + 'b) \<Rightarrow> error + 'b" where
  "and_then r k = (case r of Inl err \<Rightarrow> Inl err | Inr v \<Rightarrow> k v)"

text \<open>
  \<^verbatim>\<open>module.exports\<close> of progress/progress\_data.js, and the module scope of
  language\_tracker.js, where \<^verbatim>\<open>progressData\<close> is that module.
\<close>

definition progress_data_module :: jsval where
  "progress_data_module = JObject
     [(''connectToDatabase'', JFunction ''connectToDatabase''),
      (''closeConnection'', JFunction ''closeConnection''),
      (''storeProgressData'', JFunction ''storeProgressData''),
      (''retrieveProgressData'', JFunction ''retrieveProgressData''),
      (''updateProgressData'', JFunction ''updateProgressData''),
      (''deleteProgressData'', JFunction ''deleteProgressData'')]"

definition language_tracker_scope :: frame where
  "language_tracker_scope = [(''progressData'', Initialized progress_data_module)]"

text \<open>
  logWordsLearned: the \<^verbatim>\<open>try\<close> block declares \<^verbatim>\<open>today\<close> and
  \<^verbatim>\<open>progressData\<close>. \<open>call f args\<close> is what the data module's function \<open>f\<close>
  returns or throws; \<open>today\<close> is the start of the current day.
\<close>

definition logWordsLearned ::
  "(string \<Rightarrow> jsval list \<Rightarrow> error + jsval) \<Rightarrow> int \<Rightarrow> jsval \<Rightarrow> jsval \<Rightarrow> error + string" where
  "logWordsLearned call today language wordCount =
     (let env0 = [[(''today'', Uninitialized), (''progressData'', Uninitialized)],
                  [(''language'', Initialized language), (''wordCount'', Initialized wordCount)],
                  language_tracker_scope];
          env1 = initialize ''today'' (JDate today) env0
      in and_then (read_var env1 ''language'') (\<lambda>l.
         and_then (read_var env1 ''today'') (\<lambda>d.
         and_then (read_var env1 ''wordCount'') (\<lambda>c.
           (let env2 = initialize ''progressData''
                         (JObject [(''language'', l), (''date'', d), (''wordCount'', c)]) env1
            in and_then (read_var env2 ''progressData'') (\<lambda>obj.
               and_then (callee obj ''storeProgressData'') (\<lambda>f.
               and_then (read_var env2 ''progressData'') (\<lambda>arg.
               and_then (call f [arg]) (\<lambda>r.
                 Inr ''Words learned logged successfully.'')))))))))"

text \<open>
  getMonthlyProgress, up to the first \<^verbatim>\<open>await\<close>: the \<^verbatim>\<open>try\<close> block declares
  seven constants, \<^verbatim>\<open>progressData\<close> among them, and the initializer of
  \<^verbatim>\<open>progressData\<close> reads \<^verbatim>\<open>progressData\<close>. \<open>rest\<close> is the remainder of the
  block (the sums, the second query and the returned object), run in the environment
  where \<^verbatim>\<open>progressData\<close> is initialized.
\<close>

definition getMonthlyProgress ::
  "(string \<Rightarrow> jsval list \<Rightarrow> error + jsval) \<Rightarrow> (frame list \<Rightarrow> error + jsval)
     \<Rightarrow> int \<Rightarrow> int \<Rightarrow> int \<Rightarrow> jsval \<Rightarrow> error + jsval" where
  "getMonthlyProgress call rest today startOfMonth endOfMonth language =
     (let env0 = [[(''today'', Uninitialized), (''startOfMonth'', Uninitialized),
                   (''endOfMonth'', Uninitialized), (''progressData'', Uninitialized),
                   (''totalWordsLearned'', Uninitialized), (''monthlyGoalData'', Uninitialized),
                   (''monthlyGoal'', Uninitialized)],
                  [(''language'', Initialized language)],
                  language_tracker_scope];
          env1 = initialize ''endOfMonth'' (JDate endOfMonth)
                   (initialize ''startOfMonth'' (JDate startOfMonth)
                      (initialize ''today'' (JDate today) env0))
      in and_then (read_var env1 ''progressData'') (\<lambda>obj.
         and_then (callee obj ''retrieveProgressData'') (\<lambda>f.
         and_then (read_var env1 ''language'') (\<lambda>l.
         and_then (read_var env1 ''startOfMonth'') (\<lambda>s.
         and_then (read_var env1 ''endOfMonth'') (\<lambda>e.
         and_then (call f [JObject [(''language'', l),
                                    (''date'', JObject [(''$gte'', s), (''$lte'', e)])]]) (\<lambda>r.
           rest (initialize ''progressData'' r env1))))))))"

text \<open>
  For comparison, the first call of setMonthlyGoals, whose block declares no
  \<^verbatim>\<open>progressData\<close>: the function that \<^verbatim>\<open>progressData.retrieveProgressData\<close>
  names there.
\<close>

definition setMonthlyGoals_first_callee :: "jsval \<Rightarrow> jsval \<Rightarrow> error + string" where
  "setMonthlyGoals_first_callee language wordCount =
     (let env = [[(''today'', Uninitialized), (''startOfMonth'', Uninitialized),
                  (''existingGoal'', Uninitialized)],
                 [(''language'', Initialized language), (''wordCount'', Initialized wordCount)],
                 language_tracker_scope]
      in and_then (read_var env ''progressData'') (\<lambda>obj. callee obj ''retrieveProgressData''))"

section \<open>Properties of the free-time computation\<close>

lemma scanEvents_acc: "scanEvents cur es acc = (acc @ fst (scanEvents cur es []), snd (scanEvents cur es []))"
proof (induction es arbitrary: cur acc)
  case Nil
  show ?case by simp
next
  case (Cons e es)
  show ?case
    using Cons.IH [of "end_dateTime e" "acc @ [\<lparr>start_t = cur, end_t = start_dateTime e\<rparr>]"]
      Cons.IH [of "end_dateTime e" "[\<lparr>start_t = cur, end_t = start_dateTime e\<rparr>]"]
      Cons.IH [of "end_dateTime e" acc]
    by simp
qed

lemma free_total_Nil: "free_total c e [] = (if e > c then e - c else 0)"
  by (simp add: free_total_def)

lemma free_total_Cons:
  "free_total c e (b # es) =
     (if start_dateTime b > c then start_dateTime b - c else 0) + free_total (end_dateTime b) e es"
proof -
  obtain acc cur where r: "scanEvents (end_dateTime b) es [] = (acc, cur)"
    by (cases "scanEvents (end_dateTime b) es []")
  have "scanEvents c (b # es) [] =
      ((if start_dateTime b > c then [\<lparr>start_t = c, end_t = start_dateTime b\<rparr>] else []) @ acc, cur)"
    using scanEvents_acc [of "end_dateTime b" es "[\<lparr>start_t = c, end_t = start_dateTime b\<rparr>]"] r
    by simp
  then show ?thesis
    using r by (simp add: free_total_def interval_length_def)
qed

lemma clipped_length_later_cursor:
  "c \<le> c' \<Longrightarrow> c' \<le> start_dateTime b \<Longrightarrow> clipped_length c e b = clipped_length c' e b"
  by (simp add: clipped_length_def max_def)

lemma free_plus_busy:
  "non_overlapping_sorted es \<Longrightarrow> within_reach c e es \<Longrightarrow>
   free_total c e es + sum_list (map (clipped_length c e) es) = max 0 (e - c)"
proof (induction es arbitrary: c)
  case Nil
  show ?case by (simp add: free_total_Nil)
next
  case (Cons b es)
  have b: "start_dateTime b < end_dateTime b" "c \<le> end_dateTime b" "start_dateTime b \<le> e"
    using Cons.prems by (simp_all add: non_overlapping_sorted_def within_reach_def)
  have later: "list_all (\<lambda>x. end_dateTime b \<le> start_dateTime x) es"
    using Cons.prems(1) by (simp add: non_overlapping_sorted_def list_all_iff)
  have nos: "non_overlapping_sorted es"
    using Cons.prems(1) by (simp add: non_overlapping_sorted_def)
  have reach: "within_reach (end_dateTime b) e es"
    using Cons.prems later
    by (fastforce simp: within_reach_def non_overlapping_sorted_def list_all_iff)
  have same: "map (clipped_length c e) es = map (clipped_length (end_dateTime b) e) es"
    using later b(2) by (auto simp: list_all_iff intro: clipped_length_later_cursor)
  have ih: "free_total (end_dateTime b) e es
      + sum_list (map (clipped_length (end_dateTime b) e) es) = max 0 (e - end_dateTime b)"
    using Cons.IH [OF nos reach] .
  have step: "(if start_dateTime b > c then start_dateTime b - c else 0)
      + clipped_length c e b + max 0 (e - end_dateTime b) = max 0 (e - c)"
    using b by (auto simp: clipped_length_def max_def min_def)
  show ?case
    using ih step by (simp add: free_total_Cons same)
qed

lemma non_overlapping_sorted_by_start:
  "non_overlapping_sorted B \<Longrightarrow> sorted (map start_dateTime B)"
proof (induction B)
  case Nil
  show ?case by simp
next
  case (Cons b B)
  have "\<forall>x\<in>set B. start_dateTime b \<le> start_dateTime x"
    using Cons.prems by (fastforce simp: non_overlapping_sorted_def list_all_iff)
  moreover have "sorted (map start_dateTime B)"
    using Cons by (simp add: non_overlapping_sorted_def)
  ultimately show ?case by simp
qed

subsection \<open>What the returned intervals do satisfy\<close>

text \<open>
  Every returned interval has its start before its end, and, when no event ends before
  it starts, the returned list is in ascending order without overlaps: a pushed interval
  ends at an event's start, and whatever is pushed later starts at the end of that event
  or of a later one.
\<close>

lemma scanEvents_positive:
  "list_all (\<lambda>i. start_t i < end_t i) acc \<Longrightarrow>
   list_all (\<lambda>i. start_t i < end_t i) (fst (scanEvents cur es acc))"
  by (induction es arbitrary: cur acc) simp_all

lemma free_intervals_positive:
  "list_all (\<lambda>i. start_t i < end_t i) (calculateFreeTimeIntervals now endOfDay evs)"
proof -
  obtain acc cur where r: "scanEvents now (sort_key start_dateTime evs) [] = (acc, cur)"
    by (cases "scanEvents now (sort_key start_dateTime evs) []")
  have "list_all (\<lambda>i. start_t i < end_t i) acc"
    using scanEvents_positive [of "[]" now "sort_key start_dateTime evs"] r by simp
  then show ?thesis
    by (simp add: calculateFreeTimeIntervals_def r)
qed

lemma ascending_snoc:
  "ascending (xs @ [x]) = (ascending xs \<and> list_all (\<lambda>a. end_t a \<le> start_t x) xs)"
  by (auto simp: ascending_def sorted_wrt_append list_all_iff)

lemma scanEvents_ascending:
  assumes "sorted (map start_dateTime es)"
    and "list_all (\<lambda>e. start_dateTime e \<le> end_dateTime e) es"
    and "ascending acc"
    and "list_all (\<lambda>a. end_t a \<le> cur) acc"
    and "list_all (\<lambda>a. list_all (\<lambda>e. end_t a \<le> start_dateTime e) es) acc"
  shows "ascending (fst (scanEvents cur es acc))
       \<and> list_all (\<lambda>a. end_t a \<le> snd (scanEvents cur es acc)) (fst (scanEvents cur es acc))"
  using assms
proof (induction es arbitrary: cur acc)
  case Nil
  then show ?case by simp
next
  case (Cons e es)
  let ?acc = "if start_dateTime e > cur
        then acc @ [\<lparr>start_t = cur, end_t = start_dateTime e\<rparr>] else acc"
  have se: "start_dateTime e \<le> end_dateTime e"
    and later: "\<forall>x\<in>set es. start_dateTime e \<le> start_dateTime x"
    using Cons.prems(1,2) by simp_all
  have old: "\<forall>a\<in>set acc. end_t a \<le> start_dateTime e \<and> end_t a \<le> cur
      \<and> (\<forall>x\<in>set es. end_t a \<le> start_dateTime x)"
    using Cons.prems(4,5) by (auto simp: list_all_iff)
  have 1: "sorted (map start_dateTime es)"
    using Cons.prems(1) by simp
  have 2: "list_all (\<lambda>e. start_dateTime e \<le> end_dateTime e) es"
    using Cons.prems(2) by simp
  have 3: "ascending ?acc"
    using Cons.prems(3) old by (auto simp: ascending_snoc list_all_iff)
  have 4: "list_all (\<lambda>a. end_t a \<le> end_dateTime e) ?acc"
    using old se by (auto simp: list_all_iff)
  have 5: "list_all (\<lambda>a. list_all (\<lambda>e. end_t a \<le> start_dateTime e) es) ?acc"
    using old later by (auto simp: list_all_iff)
  show ?case
    using Cons.IH [OF 1 2 3 4 5] by simp
qed

lemma free_intervals_ascending:
  assumes "list_all (\<lambda>e. start_dateTime e \<le> end_dateTime e) evs"
  shows "ascending (calculateFreeTimeIntervals now endOfDay evs)"
proof -
  let ?es = "sort_key start_dateTime evs"
  obtain acc cur where r: "scanEvents now ?es [] = (acc, cur)"
    by (cases "scanEvents now ?es []")
  have "list_all (\<lambda>e. start_dateTime e \<le> end_dateTime e) ?es"
    using assms by (simp add: list_all_iff)
  then have "ascending acc \<and> list_all (\<lambda>a. end_t a \<le> cur) acc"
    using scanEvents_ascending [of ?es "[]" now] r by (simp add: ascending_def)
  then show ?thesis
    by (simp add: calculateFreeTimeIntervals_def r ascending_snoc)
qed

subsection \<open>The claims\<close>

text \<open>
  C1. The claim: the cursor never moves backward, so every returned free interval is
  disjoint from every busy interval. The code assigns the cursor the event's end with no
  maximum: with the busy events \<open>[10, 20)\<close> and \<open>[12, 14)\<close>, a clock reading of \<open>0\<close>
  and a day ending at \<open>100\<close>, the cursor goes from \<open>20\<close> back to \<open>14\<close> and the
  interval \<open>[14, 100)\<close> is returned as free although \<open>[10, 20)\<close> is busy until \<open>20\<close>.
  (The rest of the claim holds: \<open>free_intervals_positive\<close>, \<open>free_intervals_ascending\<close>.)
\<close>

theorem C1_cursor_moves_backward:
  "calculateFreeTimeIntervals 0 100 [busy 10 20, busy 12 14]
     = [\<lparr>start_t = 0, end_t = 10\<rparr>, \<lparr>start_t = 14, end_t = 100\<rparr>]
   \<and> snd (scanEvents 0 [busy 10 20] []) = 20
   \<and> snd (scanEvents 0 [busy 10 20, busy 12 14] []) = 14
   \<and> overlaps 14 100 (start_dateTime (busy 10 20)) (end_dateTime (busy 10 20))"
  by (simp add: calculateFreeTimeIntervals_def busy_def overlaps_def)

text \<open>
  C2, as stated: for non-overlapping sorted busy intervals and a window \<open>[s, e)\<close>, the
  free lengths and the lengths of the busy intervals inside the window add up to
  \<open>e - s\<close>. It fails for a busy interval that starts after the window's end: the free
  interval pushed before it is not cut at \<open>e\<close>.
\<close>

theorem C2_counterexample:
  "\<not> (\<forall>B s e. non_overlapping_sorted B \<and> s < e \<longrightarrow>
        sum_list (map interval_length (calculateFreeTimeIntervals s e B))
          + sum_list (map (clipped_length s e) B) = e - s)"
proof
  assume a: "\<forall>B s e. non_overlapping_sorted B \<and> s < e \<longrightarrow>
        sum_list (map interval_length (calculateFreeTimeIntervals s e B))
          + sum_list (map (clipped_length s e) B) = e - s"
  have "non_overlapping_sorted [busy 20 30] \<and> (0::int) < 10"
    by (simp add: non_overlapping_sorted_def busy_def)
  with a have "sum_list (map interval_length (calculateFreeTimeIntervals 0 10 [busy 20 30]))
          + sum_list (map (clipped_length 0 10) [busy 20 30]) = 10 - 0"
    by blast
  then show False
    by (simp add: calculateFreeTimeIntervals_def busy_def interval_length_def clipped_length_def)
qed

text \<open>
  A busy interval that ends before \<open>s\<close> is not skipped either: with no maximum in the
  cursor's update (see C1) it takes the cursor back before \<open>s\<close>.
\<close>

lemma before_window_event_moves_cursor_back:
  "calculateFreeTimeIntervals 0 10 [busy (- 5) (- 3)] = [\<lparr>start_t = - 3, end_t = 10\<rparr>]"
  by (simp add: calculateFreeTimeIntervals_def busy_def)

text \<open>
  C2, amended: for non-overlapping sorted busy intervals none of which ends before \<open>s\<close>
  or starts after \<open>e\<close>, and a window \<open>[s, e)\<close> with \<open>s < e\<close>, the lengths of the free
  intervals plus the lengths of the busy intervals' parts inside the window equal
  \<open>e - s\<close>.
\<close>

theorem C2_free_plus_busy_fills_window:
  assumes "non_overlapping_sorted B" and "within_reach s e B" and "s < e"
  shows "sum_list (map interval_length (calculateFreeTimeIntervals s e B))
           + sum_list (map (clipped_length s e) B) = e - s"
proof -
  have "sort_key start_dateTime B = B"
    using assms(1) by (simp add: non_overlapping_sorted_by_start sort_key_id_if_sorted)
  then have "sum_list (map interval_length (calculateFreeTimeIntervals s e B)) = free_total s e B"
    by (simp add: calculateFreeTimeIntervals_def free_total_def interval_length_def
        split: prod.splits)
  then show ?thesis
    using free_plus_busy [OF assms(1,2)] assms(3) by simp
qed

theorem C2_witness:
  "non_overlapping_sorted [busy (-5) 5, busy 10 20, busy 90 110]
   \<and> within_reach 0 100 [busy (-5) 5, busy 10 20, busy 90 110]
   \<and> calculateFreeTimeIntervals 0 100 [busy (-5) 5, busy 10 20, busy 90 110]
       = [\<lparr>start_t = 5, end_t = 10\<rparr>, \<lparr>start_t = 20, end_t = 90\<rparr>]
   \<and> sum_list (map interval_length
         (calculateFreeTimeIntervals 0 100 [busy (-5) 5, busy 10 20, busy 90 110]))
       + sum_list (map (clipped_length 0 100) [busy (-5) 5, busy 10 20, busy 90 110]) = 100 - 0"
proof -
  have h1: "non_overlapping_sorted [busy (-5) 5, busy 10 20, busy 90 110]"
    by (simp add: non_overlapping_sorted_def busy_def)
  have h2: "within_reach 0 100 [busy (-5) 5, busy 10 20, busy 90 110]"
    by (simp add: within_reach_def busy_def)
  have h3: "(0::int) < 100" by simp
  have c: "calculateFreeTimeIntervals 0 100 [busy (-5) 5, busy 10 20, busy 90 110]
       = [\<lparr>start_t = 5, end_t = 10\<rparr>, \<lparr>start_t = 20, end_t = 90\<rparr>]"
    by (simp add: calculateFreeTimeIntervals_def busy_def)
  show ?thesis
    using h1 h2 c C2_free_plus_busy_fills_window [OF h1 h2 h3] by simp
qed

section \<open>Properties of the scheduling interface\<close>

lemma find_None_iff_list_ex: "(find P xs = None) = (\<not> list_ex P xs)"
  by (auto simp: find_None_iff list_ex_iff)

lemma find_update_first:
  "find P xs = Some t \<Longrightarrow> P (f t) \<Longrightarrow> find P (update_first P f xs) = Some (f t)"
  by (induction xs) (auto split: if_splits)

lemma update_first_same:
  "find P xs = Some t \<Longrightarrow> f t = t \<Longrightarrow> update_first P f xs = xs"
  by (induction xs) (auto split: if_splits)

lemma le_fold_max: "x \<in> set xs \<Longrightarrow> (x::nat) \<le> fold max xs a"
proof -
  assume "x \<in> set xs"
  then have "x \<le> Max (set (a # xs))" by simp
  then show ?thesis by (simp only: Max.set_eq_fold)
qed

lemma fresh_gid_new: "g \<in> set (gids_in_use w) \<Longrightarrow> g \<noteq> fresh_gid w"
proof
  assume g: "g \<in> set (gids_in_use w)" and eq: "g = fresh_gid w"
  have "length g \<in> set (map length (gids_in_use w))"
    using g by simp
  then have "length g \<le> fold max (map length (gids_in_use w)) 0"
    by (rule le_fold_max)
  then show False
    using eq by (simp add: fresh_gid_def)
qed

lemma fresh_gid_not_in_calendar: "e \<in> set (calendar w) \<Longrightarrow> event_id e \<noteq> Some (fresh_gid w)"
  using fresh_gid_new [of "fresh_gid w" w] by (cases "event_id e") (fastforce simp: gids_in_use_def)+

lemma fresh_gid_not_linked: "d \<in> set (events w) \<Longrightarrow> googleEventId d \<noteq> Some (fresh_gid w)"
  using fresh_gid_new [of "fresh_gid w" w] by (cases "googleEventId d") (fastforce simp: gids_in_use_def)+

lemma fresh_gid_not_on_task: "t \<in> set (tasks w) \<Longrightarrow> calendarEventId t \<noteq> Some (fresh_gid w)"
  using fresh_gid_new [of "fresh_gid w" w] by (cases "calendarEventId t") (fastforce simp: gids_in_use_def)+

text \<open>
  C4, as stated: every task id that names no existing task makes scheduleTask fail with
  the not-found error. A string that is not a valid ObjectId is rejected by
  retrieveTaskById before any lookup, with \<^verbatim>\<open>"Invalid taskId provided."\<close>.
\<close>

theorem C4_counterexample:
  "\<not> (\<forall>instantIn taskId timeSlot timeZone w. \<not> task_exists taskId w \<longrightarrow>
         scheduleTask instantIn taskId timeSlot timeZone w = (Inl (TaskNotFound taskId), w))"
proof
  assume a: "\<forall>instantIn taskId timeSlot timeZone w. \<not> task_exists taskId w \<longrightarrow>
         scheduleTask instantIn taskId timeSlot timeZone w = (Inl (TaskNotFound taskId), w)"
  let ?w = "\<lparr>tasks = [], calendar = [], events = []\<rparr>"
  have "\<not> task_exists (Malformed ''abc'') ?w" by (simp add: task_exists_def)
  with a have "scheduleTask (\<lambda>z t. t) (Malformed ''abc'') \<lparr>start_t = 9, end_t = 10\<rparr> ''UTC'' ?w
      = (Inl (TaskNotFound (Malformed ''abc'')), ?w)" by blast
  then show False
    by (simp add: scheduleTask_def tasksData_retrieveTaskById_def)
qed

text \<open>
  C4, amended: for every task id that names no existing task, scheduleTask fails and
  leaves the three stores as they were (no calendar event, no event document, no task
  update): with the not-found error when the id is an ObjectId or a string denoting one,
  with the invalid-id error when it is a string that is not a valid ObjectId.
\<close>

theorem C4_unknown_task_fails_unchanged:
  assumes "\<not> task_exists taskId w"
  shows "scheduleTask instantIn taskId timeSlot timeZone w =
           (Inl (case taskId of Malformed s \<Rightarrow> InvalidTaskId | WellFormed n \<Rightarrow> TaskNotFound taskId), w)"
  using assms
  by (cases taskId)
     (simp_all add: scheduleTask_def tasksData_retrieveTaskById_def task_exists_def
        find_None_iff_list_ex [symmetric])

theorem C4_witness:
  "\<not> task_exists (WellFormed 5) \<lparr>tasks = [\<lparr>task_oid = 1, title = ''T'', duration = 2, scheduled = False, calendarEventId = None\<rparr>], calendar = [], events = []\<rparr>
   \<and> scheduleTask (\<lambda>z t. t) (WellFormed 5) \<lparr>start_t = 9, end_t = 10\<rparr> ''UTC''
       \<lparr>tasks = [\<lparr>task_oid = 1, title = ''T'', duration = 2, scheduled = False, calendarEventId = None\<rparr>], calendar = [], events = []\<rparr>
     = (Inl (TaskNotFound (WellFormed 5)),
        \<lparr>tasks = [\<lparr>task_oid = 1, title = ''T'', duration = 2, scheduled = False, calendarEventId = None\<rparr>], calendar = [], events = []\<rparr>)"
proof -
  let ?w = "\<lparr>tasks = [\<lparr>task_oid = 1, title = ''T'', duration = 2, scheduled = False, calendarEventId = None\<rparr>], calendar = [], events = []\<rparr>"
  have h: "\<not> task_exists (WellFormed 5) ?w" by (simp add: task_exists_def)
  show ?thesis
    using h C4_unknown_task_fails_unchanged [OF h, of "\<lambda>z t. t" "\<lparr>start_t = 9, end_t = 10\<rparr>" "''UTC''"]
    by simp
qed

text \<open>
  C10. scheduleTask does not ask whether the task is scheduled already: for every
  existing task it succeeds, appends one event under a new id to the calendar and one
  linked document to the events collection, keeps every event that was there (the one
  the task was linked to included), and sets the task's \<^verbatim>\<open>calendarEventId\<close> to the
  new id.
\<close>

theorem C10_scheduleTask_again:
  assumes "find (\<lambda>t. task_oid t = n) (tasks w) = Some t"
  shows "fst (scheduleTask instantIn (WellFormed n) timeSlot timeZone w)
           = Inr (''Task scheduled successfully. Calendar Event ID: '' @ fresh_gid w)
         \<and> list_all (\<lambda>e. event_id e \<noteq> Some (fresh_gid w)) (calendar w)
         \<and> calendarEventId t \<noteq> Some (fresh_gid w)
         \<and> calendar (snd (scheduleTask instantIn (WellFormed n) timeSlot timeZone w))
             = calendar w
               @ [\<lparr>mongo_id = None, event_id = Some (fresh_gid w), googleEventId = None,
                   summary = Some (title t),
                   start_dateTime = instantIn timeZone (start_t timeSlot),
                   end_dateTime = instantIn timeZone (end_t timeSlot),
                   description = Some (''Task ID: '' @ task_id_text (WellFormed n))\<rparr>]
         \<and> events (snd (scheduleTask instantIn (WellFormed n) timeSlot timeZone w))
             = events w
               @ [\<lparr>mongo_id = Some (fresh_oid w), event_id = None,
                   googleEventId = Some (fresh_gid w), summary = Some (title t),
                   start_dateTime = instantIn timeZone (start_t timeSlot),
                   end_dateTime = instantIn timeZone (end_t timeSlot),
                   description = Some (''Task ID: '' @ task_id_text (WellFormed n))\<rparr>]
         \<and> find (\<lambda>t. task_oid t = n) (tasks (snd (scheduleTask instantIn (WellFormed n) timeSlot timeZone w)))
             = Some (t\<lparr>scheduled := True, calendarEventId := Some (fresh_gid w)\<rparr>)"
proof -
  have fresh: "list_all (\<lambda>e. event_id e \<noteq> Some (fresh_gid w)) (calendar w)"
    by (simp add: list_all_iff fresh_gid_not_in_calendar)
  have mem: "t \<in> set (tasks w)" and oid: "task_oid t = n"
    using assms by (auto simp: find_Some_iff)
  have old: "calendarEventId t \<noteq> Some (fresh_gid w)"
    using mem by (rule fresh_gid_not_on_task)
  have upd: "find (\<lambda>t. task_oid t = n)
      (update_first (\<lambda>t. task_oid t = n)
         (\<lambda>t. t\<lparr>scheduled := True, calendarEventId := Some (fresh_gid w)\<rparr>) (tasks w))
      = Some (t\<lparr>scheduled := True, calendarEventId := Some (fresh_gid w)\<rparr>)"
    using assms oid by (intro find_update_first) simp_all
  have same_oid: "fresh_oid (w\<lparr>calendar := c\<rparr>) = fresh_oid w" for c
    by (simp add: fresh_oid_def oids_in_use_def)
  show ?thesis
    using assms fresh old upd
    by (simp add: scheduleTask_def tasksData_retrieveTaskById_def timeModule_insertEvent_def
        googleCalendar_createEvent_def mongoCalendar_insertEvent_def tasksData_updateTaskData_def
        Let_def same_oid del: task_id_text.simps)
qed

theorem C10_witness:
  "find (\<lambda>t. task_oid t = 1)
     (tasks \<lparr>tasks = [\<lparr>task_oid = 1, title = ''T'', duration = 2, scheduled = True,
                 calendarEventId = Some ''g''\<rparr>],
        calendar = [(busy 9 11)\<lparr>event_id := Some ''g''\<rparr>],
        events = [(busy 9 11)\<lparr>mongo_id := Some 2, googleEventId := Some ''g''\<rparr>]\<rparr>)
     = Some \<lparr>task_oid = 1, title = ''T'', duration = 2, scheduled = True,
              calendarEventId = Some ''g''\<rparr>
   \<and> map event_id (calendar (snd (scheduleTask (\<lambda>z t. t) (WellFormed 1)
         \<lparr>start_t = 13, end_t = 15\<rparr> ''UTC''
         \<lparr>tasks = [\<lparr>task_oid = 1, title = ''T'', duration = 2, scheduled = True,
                 calendarEventId = Some ''g''\<rparr>],
          calendar = [(busy 9 11)\<lparr>event_id := Some ''g''\<rparr>],
          events = [(busy 9 11)\<lparr>mongo_id := Some 2, googleEventId := Some ''g''\<rparr>]\<rparr>)))
     = [Some ''g'', Some ''gg'']
   \<and> map calendarEventId (tasks (snd (scheduleTask (\<lambda>z t. t) (WellFormed 1)
         \<lparr>start_t = 13, end_t = 15\<rparr> ''UTC''
         \<lparr>tasks = [\<lparr>task_oid = 1, title = ''T'', duration = 2, scheduled = True,
                 calendarEventId = Some ''g''\<rparr>],
          calendar = [(busy 9 11)\<lparr>event_id := Some ''g''\<rparr>],
          events = [(busy 9 11)\<lparr>mongo_id := Some 2, googleEventId := Some ''g''\<rparr>]\<rparr>)))
     = [Some ''gg'']"
proof -
  let ?w = "\<lparr>tasks = [\<lparr>task_oid = 1, title = ''T'', duration = 2, scheduled = True,
                 calendarEventId = Some ''g''\<rparr>],
        calendar = [(busy 9 11)\<lparr>event_id := Some ''g''\<rparr>],
        events = [(busy 9 11)\<lparr>mongo_id := Some 2, googleEventId := Some ''g''\<rparr>]\<rparr>"
  have h: "find (\<lambda>t. task_oid t = 1) (tasks ?w)
     = Some \<lparr>task_oid = 1, title = ''T'', duration = 2, scheduled = True,
              calendarEventId = Some ''g''\<rparr>"
    by simp
  have run: "snd (scheduleTask (\<lambda>z t. t) (WellFormed 1) \<lparr>start_t = 13, end_t = 15\<rparr> ''UTC'' ?w)
    = \<lparr>tasks = [\<lparr>task_oid = 1, title = ''T'', duration = 2, scheduled = True,
                 calendarEventId = Some ''gg''\<rparr>],
        calendar = [(busy 9 11)\<lparr>event_id := Some ''g''\<rparr>,
                    \<lparr>mongo_id = None, event_id = Some ''gg'', googleEventId = None,
                      summary = Some ''T'', start_dateTime = 13, end_dateTime = 15,
                      description = Some (''Task ID: '' @ hex_digits 24 1)\<rparr>],
        events = [(busy 9 11)\<lparr>mongo_id := Some 2, googleEventId := Some ''g''\<rparr>,
                    \<lparr>mongo_id = Some 3, event_id = None, googleEventId = Some ''gg'',
                      summary = Some ''T'', start_dateTime = 13, end_dateTime = 15,
                      description = Some (''Task ID: '' @ hex_digits 24 1)\<rparr>]\<rparr>"
    by (simp add: scheduleTask_def tasksData_retrieveTaskById_def timeModule_insertEvent_def
        googleCalendar_createEvent_def mongoCalendar_insertEvent_def tasksData_updateTaskData_def
        Let_def fresh_gid_def gids_in_use_def fresh_oid_def oids_in_use_def busy_def
        del: hex_digits.simps)
  show ?thesis
    using h C10_scheduleTask_again [OF h, of "\<lambda>z t. t" "\<lparr>start_t = 13, end_t = 15\<rparr>" "''UTC''"]
    unfolding run by simp
qed

subsection \<open>unscheduleTask\<close>

lemma delete_first_no_match: "\<not> list_ex P xs \<Longrightarrow> delete_first P xs = xs"
  by (induction xs) auto

lemma unscheduleTask_unscheduled_noop:
  assumes "find (\<lambda>t. task_oid t = n) (tasks w) = Some t"
    and "calendarEventId t = None" and "\<not> scheduled t"
  shows "unscheduleTask (WellFormed n) w = (Inr ''Task unscheduled successfully.'', w)"
proof -
  have "update_first (\<lambda>t. task_oid t = n) (\<lambda>t. t\<lparr>scheduled := False, calendarEventId := None\<rparr>)
      (tasks w) = tasks w"
    using assms by (intro update_first_same [of _ _ t]) simp_all
  then show ?thesis
    using assms
    by (simp add: unscheduleTask_def tasksData_retrieveTaskById_def truthy_def
        tasksData_updateTaskData_def)
qed

lemma unscheduleTask_keeps_event_document:
  assumes "find (\<lambda>t. task_oid t = n) (tasks w) = Some t"
    and "calendarEventId t = Some g" and "g \<noteq> []"
    and "list_ex (\<lambda>e. event_id e = Some g) (calendar w)"
    and "\<not> list_ex (\<lambda>e. mongo_id e = Some n) (events w)"
  shows "fst (unscheduleTask (WellFormed n) w) = Inr ''Task unscheduled successfully.''
       \<and> events (snd (unscheduleTask (WellFormed n) w)) = events w"
proof -
  have "task_oid t = n"
    using assms(1) by (auto simp: find_Some_iff)
  then show ?thesis
    using assms
    by (simp add: unscheduleTask_def tasksData_retrieveTaskById_def truthy_def
        tasksData_updateTaskData_def timeModule_deleteEvent_def googleCalendar_deleteEvent_def
        mongoCalendar_deleteEvent_def delete_first_no_match)
qed

text \<open>
  C5. The claim: for a task with a linked event, unscheduleTask removes the event from
  the calendar and from the event store. The code passes the task's own \<^verbatim>\<open>_id\<close> to
  deleteEvent where the event document's id is expected, so \<^verbatim>\<open>deleteOne\<close> matches
  no event document: the calendar event goes, the linked document stays. The same
  happens to the document scheduleTask itself has inserted (second and third part).
  The first half of the claim holds: \<open>unscheduleTask_unscheduled_noop\<close>.
\<close>

theorem C5_event_document_left_behind:
  "unscheduleTask (WellFormed 1)
     \<lparr>tasks = [\<lparr>task_oid = 1, title = ''T'', duration = 2, scheduled = True,
                 calendarEventId = Some ''g1''\<rparr>],
      calendar = [(busy 9 11)\<lparr>event_id := Some ''g1''\<rparr>],
      events = [(busy 9 11)\<lparr>mongo_id := Some 7, googleEventId := Some ''g1''\<rparr>]\<rparr>
   = (Inr ''Task unscheduled successfully.'',
      \<lparr>tasks = [\<lparr>task_oid = 1, title = ''T'', duration = 2, scheduled = False,
                 calendarEventId = None\<rparr>],
       calendar = [],
       events = [(busy 9 11)\<lparr>mongo_id := Some 7, googleEventId := Some ''g1''\<rparr>]\<rparr>)
   \<and> map googleEventId (events (snd (unscheduleTask (WellFormed 1)
         (snd (scheduleTask (\<lambda>z t. t) (WellFormed 1) \<lparr>start_t = 9, end_t = 11\<rparr> ''UTC''
            \<lparr>tasks = [\<lparr>task_oid = 1, title = ''T'', duration = 2, scheduled = False,
                        calendarEventId = None\<rparr>],
             calendar = [], events = []\<rparr>)))))
     = [Some ''g'']
   \<and> calendar (snd (unscheduleTask (WellFormed 1)
         (snd (scheduleTask (\<lambda>z t. t) (WellFormed 1) \<lparr>start_t = 9, end_t = 11\<rparr> ''UTC''
            \<lparr>tasks = [\<lparr>task_oid = 1, title = ''T'', duration = 2, scheduled = False,
                        calendarEventId = None\<rparr>],
             calendar = [], events = []\<rparr>))))
     = []"
  by (simp add: unscheduleTask_def scheduleTask_def tasksData_retrieveTaskById_def truthy_def
      tasksData_updateTaskData_def timeModule_deleteEvent_def googleCalendar_deleteEvent_def
      mongoCalendar_deleteEvent_def timeModule_insertEvent_def googleCalendar_createEvent_def
      mongoCalendar_insertEvent_def fresh_gid_def gids_in_use_def fresh_oid_def oids_in_use_def
      busy_def Let_def del: hex_digits.simps)

subsection \<open>suggestTimeSlots\<close>

lemma callee_fetchEvents:
  "callee timeModule ''fetchEvents'' = Inl (TypeError ''fetchEvents is not a function'')"
  by (simp add: callee_def timeModule_def)

lemma suggestTimeSlots_throws:
  assumes "find (\<lambda>t. task_oid t = n) (tasks w) = Some t"
  shows "suggestTimeSlots run formatIn now endOfDay (WellFormed n) timeZone w
           = Inl (TypeError ''fetchEvents is not a function'')"
  using assms
  by (simp add: suggestTimeSlots_def tasksData_retrieveTaskById_def callee_fetchEvents)

lemma long_enough_example:
  "filter (long_enough \<lparr>task_oid = 1, title = ''T'', duration = 2, scheduled = False,
                         calendarEventId = None\<rparr>)
     [\<lparr>start_t = 9 * 3600000, end_t = 10 * 3600000\<rparr>,
      \<lparr>start_t = 9 * 3600000, end_t = 13 * 3600000\<rparr>]
   = [\<lparr>start_t = 9 * 3600000, end_t = 13 * 3600000\<rparr>]"
  by (simp add: long_enough_def)

text \<open>
  C7. The claim: the slot suggestion returns the free intervals at least as long as the
  task. suggestTimeSlots calls \<^verbatim>\<open>timeModule.fetchEvents\<close>, which time/index.js does
  not export: for an existing task the call throws a TypeError before any interval is
  computed, whatever the calendar holds (\<open>suggestTimeSlots_throws\<close>). The filter it
  never reaches is the one the claim describes (\<open>long_enough_example\<close>).
\<close>

theorem C7_suggestTimeSlots_throws:
  "suggestTimeSlots run formatIn 0 (24 * 3600000) (WellFormed 1) ''UTC''
     \<lparr>tasks = [\<lparr>task_oid = 1, title = ''T'', duration = 2, scheduled = False,
                 calendarEventId = None\<rparr>],
      calendar = [(busy (10 * 3600000) (11 * 3600000))\<lparr>event_id := Some ''g1''\<rparr>],
      events = []\<rparr>
   = Inl (TypeError ''fetchEvents is not a function'')"
  by (simp add: suggestTimeSlots_def tasksData_retrieveTaskById_def callee_def timeModule_def)


section \<open>Properties of the synchronization\<close>

lemma fold_calls_append:
  assumes step: "\<And>x w cs. f x (w, cs) = (fst (f x (w, [])), cs @ snd (f x (w, [])))"
  shows "fold f xs (w, cs) = (fst (fold f xs (w, [])), cs @ snd (fold f xs (w, [])))"
proof (induction xs arbitrary: w cs)
  case Nil
  show ?case by simp
next
  case (Cons x xs)
  let ?w1 = "fst (f x (w, []))" and ?d1 = "snd (f x (w, []))"
  have a: "fold f (x # xs) (w, cs) = fold f xs (?w1, cs @ ?d1)"
    using step [of x w cs] by simp
  have b: "fold f (x # xs) (w, []) = fold f xs (?w1, ?d1)"
    by simp
  show ?case
    unfolding a b using Cons.IH [of ?w1 "cs @ ?d1"] Cons.IH [of ?w1 ?d1] by simp
qed

lemma syncGoogleEvent_step:
  "syncGoogleEvent mp g (w, cs)
     = (fst (syncGoogleEvent mp g (w, [])), cs @ snd (syncGoogleEvent mp g (w, [])))"
  by (simp add: syncGoogleEvent_def Let_def split: option.splits)

lemma syncMongoEvent_step:
  "syncMongoEvent G m (w, cs)
     = (fst (syncMongoEvent G m (w, [])), cs @ snd (syncMongoEvent G m (w, [])))"
  by (simp add: syncMongoEvent_def Let_def split: option.splits prod.splits)

lemma syncGoogleEvent_mongo_calls: "list_all is_mongo_call (snd (syncGoogleEvent mp g (w, [])))"
  by (simp add: syncGoogleEvent_def Let_def is_mongo_call_def split: option.splits)

lemma syncMongoEvent_created:
  "created_resources (snd (syncMongoEvent G m (w, []))) = (if missing_remotely G m then [m] else [])"
  by (simp add: syncMongoEvent_def Let_def created_resources_def missing_remotely_def
      find_None_iff_list_ex [symmetric] split: option.splits prod.splits)

lemma syncFromGoogle_mongo_calls:
  "list_all is_mongo_call (snd (syncFromGoogle gs mp (w, [])))"
proof (induction gs arbitrary: w)
  case Nil
  show ?case by (simp add: syncFromGoogle_def)
next
  case (Cons g gs)
  let ?w1 = "fst (syncGoogleEvent mp g (w, []))" and ?d1 = "snd (syncGoogleEvent mp g (w, []))"
  have "syncFromGoogle (g # gs) mp (w, []) = fold (syncGoogleEvent mp) gs (?w1, ?d1)"
    by (simp add: syncFromGoogle_def)
  also have "\<dots> = (fst (syncFromGoogle gs mp (?w1, [])), ?d1 @ snd (syncFromGoogle gs mp (?w1, [])))"
    unfolding syncFromGoogle_def by (rule fold_calls_append) (rule syncGoogleEvent_step)
  finally show ?case
    using Cons.IH [of ?w1] syncGoogleEvent_mongo_calls [of mp g w] by simp
qed

lemma created_resources_append:
  "created_resources (xs @ ys) = created_resources xs @ created_resources ys"
  by (simp add: created_resources_def)

lemma created_resources_mongo_calls: "list_all is_mongo_call cs \<Longrightarrow> created_resources cs = []"
  by (induction cs) (auto simp: created_resources_def is_mongo_call_def split: call.splits)

lemma syncFromMongo_created:
  "created_resources (snd (syncFromMongo ms G (w, []))) = filter (missing_remotely G) ms"
proof (induction ms arbitrary: w)
  case Nil
  show ?case by (simp add: syncFromMongo_def created_resources_def)
next
  case (Cons m ms)
  let ?w1 = "fst (syncMongoEvent G m (w, []))" and ?d1 = "snd (syncMongoEvent G m (w, []))"
  have "syncFromMongo (m # ms) G (w, []) = fold (syncMongoEvent G) ms (?w1, ?d1)"
    by (simp add: syncFromMongo_def)
  also have "\<dots> = (fst (syncFromMongo ms G (?w1, [])), ?d1 @ snd (syncFromMongo ms G (?w1, [])))"
    unfolding syncFromMongo_def by (rule fold_calls_append) (rule syncMongoEvent_step)
  finally show ?case
    using Cons.IH [of ?w1] syncMongoEvent_created [of G m w]
    by (simp add: created_resources_append)
qed

lemma syncFromMongo_calls_append:
  "syncFromMongo ms G (w, cs)
     = (fst (syncFromMongo ms G (w, [])), cs @ snd (syncFromMongo ms G (w, [])))"
  unfolding syncFromMongo_def by (rule fold_calls_append) (rule syncMongoEvent_step)

text \<open>
  C6. In every run the calls are those of the whole first loop (Google to MongoDB), all
  of them writes to the events collection, followed by those of the second loop started
  on the stores the first loop left; and the documents the second loop mirrors to Google
  are exactly the documents of the list fetched at the start whose Google id is absent
  from the list of Google events fetched at the start. What the run itself inserts,
  updates or creates plays no part in that test.
\<close>

theorem C6_passes_in_order:
  "snd (syncEvents now w)
     = snd (syncFromGoogle (googleCalendar_fetchEvents now (now + 7 * 24 * 60 * 60 * 1000) w)
              (mongoEventsMap (events w)) (w, []))
       @ snd (syncFromMongo (events w)
                (googleCalendar_fetchEvents now (now + 7 * 24 * 60 * 60 * 1000) w)
                (fst (syncFromGoogle (googleCalendar_fetchEvents now (now + 7 * 24 * 60 * 60 * 1000) w)
                        (mongoEventsMap (events w)) (w, [])), []))
   \<and> list_all is_mongo_call
        (snd (syncFromGoogle (googleCalendar_fetchEvents now (now + 7 * 24 * 60 * 60 * 1000) w)
                (mongoEventsMap (events w)) (w, [])))
   \<and> created_resources (snd (syncEvents now w))
        = filter (missing_remotely (googleCalendar_fetchEvents now (now + 7 * 24 * 60 * 60 * 1000) w))
            (events w)"
proof -
  let ?G = "googleCalendar_fetchEvents now (now + 7 * 24 * 60 * 60 * 1000) w"
  let ?p1 = "syncFromGoogle ?G (mongoEventsMap (events w)) (w, [])"
  have run: "syncEvents now w = syncFromMongo (events w) ?G (fst ?p1, snd ?p1)"
    by (simp add: syncEvents_def Let_def)
  have split: "snd (syncEvents now w) = snd ?p1 @ snd (syncFromMongo (events w) ?G (fst ?p1, []))"
    unfolding run using syncFromMongo_calls_append [of "events w" ?G "fst ?p1" "snd ?p1"] by simp
  have first: "list_all is_mongo_call (snd ?p1)"
    by (rule syncFromGoogle_mongo_calls)
  have none: "created_resources (snd ?p1) = []"
    using first by (rule created_resources_mongo_calls)
  have "created_resources (snd (syncEvents now w))
      = created_resources (snd (syncFromMongo (events w) ?G (fst ?p1, [])))"
    unfolding split created_resources_append none by simp
  then have created: "created_resources (snd (syncEvents now w)) = filter (missing_remotely ?G) (events w)"
    by (simp add: syncFromMongo_created)
  show ?thesis
    using split first created by simp
qed


lemma update_first_keeps: "u \<in> set xs \<Longrightarrow> \<not> P u \<Longrightarrow> u \<in> set (update_first P f xs)"
  by (induction xs) auto

lemma fold_mapEvent_linked:
  "fold mapEvent ms mp g = Some m \<Longrightarrow> (m \<in> set ms \<and> truthy (googleEventId m)) \<or> mp g = Some m"
proof (induction ms arbitrary: mp)
  case Nil
  then show ?case by simp
next
  case (Cons a ms)
  from Cons.prems have "fold mapEvent ms (mapEvent a mp) g = Some m" by simp
  from Cons.IH [OF this] show ?case
    by (auto simp: mapEvent_def truthy_def split: option.splits if_splits)
qed

lemma mongoEventsMap_linked:
  "mongoEventsMap ms g = Some m \<Longrightarrow> m \<in> set ms \<and> truthy (googleEventId m)"
  using fold_mapEvent_linked [of ms Map.empty g m] by (simp add: mongoEventsMap_def)

lemma syncGoogleEvent_untouched:
  assumes "untouched u s" and "\<And>i m. mp i = Some m \<Longrightarrow> mongo_id m \<noteq> mongo_id u"
  shows "untouched u (syncGoogleEvent mp g s)"
proof (cases s)
  case (Pair w cs)
  let ?key = "case event_id g of None \<Rightarrow> None | Some i \<Rightarrow> mp i"
  show ?thesis
  proof (cases ?key)
    case None
    then show ?thesis
      using assms(1) unfolding Pair
      by (simp add: untouched_def syncGoogleEvent_def Let_def targets_def
          mongoCalendar_insertEvent_def)
  next
    case (Some m)
    then have "mongo_id m \<noteq> mongo_id u"
      using assms(2) by (auto split: option.splits)
    then show ?thesis
      using assms(1) Some unfolding Pair
      by (simp add: untouched_def syncGoogleEvent_def Let_def targets_def
          mongoCalendar_updateEvent_def update_first_keeps)
  qed
qed

lemma syncMongoEvent_untouched:
  assumes "untouched u s" and "\<not> truthy (googleEventId u)"
    and "truthy (googleEventId m) \<Longrightarrow> mongo_id m \<noteq> mongo_id u"
  shows "untouched u (syncMongoEvent G m s)"
proof (cases s)
  case (Pair w cs)
  show ?thesis
    using assms unfolding Pair
    by (auto simp: untouched_def syncMongoEvent_def Let_def targets_def
        googleCalendar_createEvent_def mongoCalendar_updateEvent_def
        intro!: update_first_keeps split: option.splits)
qed

lemma syncFromGoogle_untouched:
  assumes "\<And>i m. mp i = Some m \<Longrightarrow> mongo_id m \<noteq> mongo_id u"
  shows "untouched u s \<Longrightarrow> untouched u (syncFromGoogle gs mp s)"
  unfolding syncFromGoogle_def
  by (induction gs arbitrary: s) (simp_all add: syncGoogleEvent_untouched assms)

lemma syncFromMongo_untouched:
  assumes "\<not> truthy (googleEventId u)"
    and "\<And>m. m \<in> set ms \<Longrightarrow> truthy (googleEventId m) \<Longrightarrow> mongo_id m \<noteq> mongo_id u"
  shows "untouched u s \<Longrightarrow> untouched u (syncFromMongo ms G s)"
  using assms(2) unfolding syncFromMongo_def
  by (induction ms arbitrary: s) (simp_all add: syncMongoEvent_untouched assms(1))

text \<open>
  C8. A document of the events collection without a (truthy) \<^verbatim>\<open>googleEventId\<close> is
  still in the collection, as it was, after a run, and no call of the run updates it or
  mirrors it to Google. MongoDB keeps \<^verbatim>\<open>_id\<close> unique in a collection, which is the
  third assumption.
\<close>

theorem C8_unlinked_event_untouched:
  assumes "u \<in> set (events w)" and "\<not> truthy (googleEventId u)"
    and "distinct (map mongo_id (events w))"
  shows "u \<in> set (events (fst (syncEvents now w)))
       \<and> list_all (\<lambda>c. \<not> targets u c) (snd (syncEvents now w))"
proof -
  have other: "mongo_id m \<noteq> mongo_id u" if "m \<in> set (events w)" "truthy (googleEventId m)" for m
  proof
    assume "mongo_id m = mongo_id u"
    then have "m = u"
      using assms(1,3) that(1) by (auto simp: distinct_map dest: inj_onD)
    then show False
      using assms(2) that(2) by simp
  qed
  have mapped: "mongo_id m \<noteq> mongo_id u" if "mongoEventsMap (events w) i = Some m" for i m
    using mongoEventsMap_linked [OF that] other by simp
  have "untouched u (w, [])"
    using assms(1) by (simp add: untouched_def)
  then have "untouched u (syncFromGoogle (googleCalendar_fetchEvents now (now + 7 * 24 * 60 * 60 * 1000) w)
      (mongoEventsMap (events w)) (w, []))"
    using mapped by (rule syncFromGoogle_untouched [rotated])
  then have "untouched u (syncEvents now w)"
    unfolding syncEvents_def Let_def
    using other by (intro syncFromMongo_untouched [OF assms(2)])
  then show ?thesis
    by (simp add: untouched_def)
qed


lemmas sync_simps =
  syncEvents_def syncFromGoogle_def syncFromMongo_def googleCalendar_fetchEvents_def
  mongoEventsMap_def mapEvent_def syncGoogleEvent_def syncMongoEvent_def hasEventChanged_def
  mongoCalendar_updateEvent_def mongoCalendar_insertEvent_def googleCalendar_createEvent_def
  set_fields_def truthy_def fresh_gid_def gids_in_use_def fresh_oid_def oids_in_use_def Let_def

theorem C8_witness:
  "ev (Some 1) None None ''mine'' 50 60 None
     \<in> set (events \<lparr>tasks = [],
          calendar = [ev None (Some ''a'') None ''A2'' 10 20 None,
                      ev None (Some ''b'') None ''B'' 30 40 None],
          events = [ev (Some 1) None None ''mine'' 50 60 None,
                    ev (Some 2) None (Some ''a'') ''A'' 10 20 None,
                    ev (Some 3) None (Some ''c'') ''C'' 70 80 None]\<rparr>)
   \<and> \<not> truthy (googleEventId (ev (Some 1) None None ''mine'' 50 60 None))
   \<and> distinct (map mongo_id (events \<lparr>tasks = [],
          calendar = [ev None (Some ''a'') None ''A2'' 10 20 None,
                      ev None (Some ''b'') None ''B'' 30 40 None],
          events = [ev (Some 1) None None ''mine'' 50 60 None,
                    ev (Some 2) None (Some ''a'') ''A'' 10 20 None,
                    ev (Some 3) None (Some ''c'') ''C'' 70 80 None]\<rparr>))
   \<and> syncEvents 0 \<lparr>tasks = [],
          calendar = [ev None (Some ''a'') None ''A2'' 10 20 None,
                      ev None (Some ''b'') None ''B'' 30 40 None],
          events = [ev (Some 1) None None ''mine'' 50 60 None,
                    ev (Some 2) None (Some ''a'') ''A'' 10 20 None,
                    ev (Some 3) None (Some ''c'') ''C'' 70 80 None]\<rparr>
       = (\<lparr>tasks = [],
          calendar = [ev None (Some ''a'') None ''A2'' 10 20 None,
                      ev None (Some ''b'') None ''B'' 30 40 None,
                      ev None (Some ''gg'') None ''C'' 70 80 None],
          events = [ev (Some 1) None None ''mine'' 50 60 None,
                    ev (Some 2) (Some ''a'') (Some ''a'') ''A2'' 10 20 None,
                    ev (Some 3) None (Some ''gg'') ''C'' 70 80 None,
                    ev (Some 4) (Some ''b'') (Some ''b'') ''B'' 30 40 None]\<rparr>,
          [MongoUpdate (Some 2) (ev None (Some ''a'') (Some ''a'') ''A2'' 10 20 None),
           MongoInsert (ev None (Some ''b'') (Some ''b'') ''B'' 30 40 None),
           GoogleCreate (ev (Some 3) None (Some ''c'') ''C'' 70 80 None),
           MongoUpdate (Some 3) (ev (Some 3) None (Some ''gg'') ''C'' 70 80 None)])
   \<and> list_all (\<lambda>c. \<not> targets (ev (Some 1) None None ''mine'' 50 60 None) c)
        (snd (syncEvents 0 \<lparr>tasks = [],
          calendar = [ev None (Some ''a'') None ''A2'' 10 20 None,
                      ev None (Some ''b'') None ''B'' 30 40 None],
          events = [ev (Some 1) None None ''mine'' 50 60 None,
                    ev (Some 2) None (Some ''a'') ''A'' 10 20 None,
                    ev (Some 3) None (Some ''c'') ''C'' 70 80 None]\<rparr>))"
proof -
  let ?u = "ev (Some 1) None None ''mine'' 50 60 None"
  let ?w = "\<lparr>tasks = [],
          calendar = [ev None (Some ''a'') None ''A2'' 10 20 None,
                      ev None (Some ''b'') None ''B'' 30 40 None],
          events = [ev (Some 1) None None ''mine'' 50 60 None,
                    ev (Some 2) None (Some ''a'') ''A'' 10 20 None,
                    ev (Some 3) None (Some ''c'') ''C'' 70 80 None]\<rparr>"
  have h1: "?u \<in> set (events ?w)" by simp
  have h2: "\<not> truthy (googleEventId ?u)" by (simp add: ev_def truthy_def)
  have h3: "distinct (map mongo_id (events ?w))" by (simp add: ev_def)
  have run: "syncEvents 0 ?w
       = (\<lparr>tasks = [],
          calendar = [ev None (Some ''a'') None ''A2'' 10 20 None,
                      ev None (Some ''b'') None ''B'' 30 40 None,
                      ev None (Some ''gg'') None ''C'' 70 80 None],
          events = [ev (Some 1) None None ''mine'' 50 60 None,
                    ev (Some 2) (Some ''a'') (Some ''a'') ''A2'' 10 20 None,
                    ev (Some 3) None (Some ''gg'') ''C'' 70 80 None,
                    ev (Some 4) (Some ''b'') (Some ''b'') ''B'' 30 40 None]\<rparr>,
          [MongoUpdate (Some 2) (ev None (Some ''a'') (Some ''a'') ''A2'' 10 20 None),
           MongoInsert (ev None (Some ''b'') (Some ''b'') ''B'' 30 40 None),
           GoogleCreate (ev (Some 3) None (Some ''c'') ''C'' 70 80 None),
           MongoUpdate (Some 3) (ev (Some 3) None (Some ''gg'') ''C'' 70 80 None)])"
    by (simp add: sync_simps ev_def)
  show ?thesis
    using h1 h2 h3 run C8_unlinked_event_untouched [OF h1 h2 h3, of 0] by simp
qed

text \<open>
  C3. The claim: a second run, after the first with nothing else changed, makes no call.
  Take a Google event without a description, linked to a document that has one. The
  first run sees a difference and updates the document; \<^verbatim>\<open>$set\<close> writes the fields
  the Google event has and so leaves the document's description in place; the second
  run sees the same difference and makes the same call.
\<close>

theorem C3_second_run_not_empty:
  "snd (syncEvents 0
     \<lparr>tasks = [],
      calendar = [ev None (Some ''g1'') None ''A'' 10 20 None],
      events = [ev (Some 1) None (Some ''g1'') ''A'' 10 20 (Some ''old'')]\<rparr>)
     = [MongoUpdate (Some 1) (ev None (Some ''g1'') (Some ''g1'') ''A'' 10 20 None)]
   \<and> fst (syncEvents 0
     \<lparr>tasks = [],
      calendar = [ev None (Some ''g1'') None ''A'' 10 20 None],
      events = [ev (Some 1) None (Some ''g1'') ''A'' 10 20 (Some ''old'')]\<rparr>)
     = \<lparr>tasks = [],
      calendar = [ev None (Some ''g1'') None ''A'' 10 20 None],
      events = [ev (Some 1) (Some ''g1'') (Some ''g1'') ''A'' 10 20 (Some ''old'')]\<rparr>
   \<and> snd (syncEvents 0
     \<lparr>tasks = [],
      calendar = [ev None (Some ''g1'') None ''A'' 10 20 None],
      events = [ev (Some 1) (Some ''g1'') (Some ''g1'') ''A'' 10 20 (Some ''old'')]\<rparr>)
     = [MongoUpdate (Some 1) (ev None (Some ''g1'') (Some ''g1'') ''A'' 10 20 None)]"
  by (simp add: sync_simps ev_def)

text \<open>
  A second way the same claim fails: the Google list is fetched from the clock reading
  on, so a linked document whose event is over is taken to be missing in Google and is
  created there again, on this run and on the next.
\<close>

lemma syncEvents_mirrors_past_event_again:
  "syncEvents 0
     \<lparr>tasks = [],
      calendar = [ev None (Some ''g1'') None ''A'' (- 20) (- 10) None],
      events = [ev (Some 1) None (Some ''g1'') ''A'' (- 20) (- 10) None]\<rparr>
     = (\<lparr>tasks = [],
        calendar = [ev None (Some ''g1'') None ''A'' (- 20) (- 10) None,
                    ev None (Some ''ggg'') None ''A'' (- 20) (- 10) None],
        events = [ev (Some 1) None (Some ''ggg'') ''A'' (- 20) (- 10) None]\<rparr>,
        [GoogleCreate (ev (Some 1) None (Some ''g1'') ''A'' (- 20) (- 10) None),
         MongoUpdate (Some 1) (ev (Some 1) None (Some ''ggg'') ''A'' (- 20) (- 10) None)])
   \<and> snd (syncEvents 0
     \<lparr>tasks = [],
        calendar = [ev None (Some ''g1'') None ''A'' (- 20) (- 10) None,
                    ev None (Some ''ggg'') None ''A'' (- 20) (- 10) None],
        events = [ev (Some 1) None (Some ''ggg'') ''A'' (- 20) (- 10) None]\<rparr>)
     = [GoogleCreate (ev (Some 1) None (Some ''ggg'') ''A'' (- 20) (- 10) None),
        MongoUpdate (Some 1) (ev (Some 1) None (Some ''gggg'') ''A'' (- 20) (- 10) None)]"
  by (simp add: sync_simps ev_def)

section \<open>Properties of the language tracker\<close>

text \<open>
  C9. For every input logWordsLearned throws: its block's own \<^verbatim>\<open>progressData\<close>, the
  record being logged, is what \<^verbatim>\<open>progressData.storeProgressData\<close> is read from, and
  the record has no such function. For every input getMonthlyProgress throws: the
  initializer of its \<^verbatim>\<open>progressData\<close> reads \<^verbatim>\<open>progressData\<close> before it is
  initialized. Neither depends on what the data module does.
\<close>

theorem C9_always_throws:
  "logWordsLearned call today language wordCount
     = Inl (TypeError ''storeProgressData is not a function'')
   \<and> getMonthlyProgress call rest today startOfMonth endOfMonth language
     = Inl (ReferenceError ''Cannot access progressData before initialization'')"
  by (simp add: logWordsLearned_def getMonthlyProgress_def language_tracker_scope_def
      read_var_def and_then_def callee_def Let_def)

lemma setMonthlyGoals_reaches_module:
  "setMonthlyGoals_first_callee language wordCount = Inr ''retrieveProgressData''"
  by (simp add: setMonthlyGoals_first_callee_def language_tracker_scope_def progress_data_module_def
      read_var_def and_then_def callee_def Let_def)

end
